theory Spec2Isabelle
  imports Main "HOL-Library.Word"
begin

section \<open>LANShare: Bluetooth scan and WebDAV server lifecycle\<close>

text \<open>
  A shallow embedding of \<^verbatim>\<open>model/bluetooth.go\<close> and \<^verbatim>\<open>model/webDav.go\<close>.
  Calls into libraries outside the repository (the BLE stack, \<^verbatim>\<open>net.Listen\<close>,
  \<^verbatim>\<open>net.Interfaces\<close>, \<^verbatim>\<open>http.Server.Shutdown\<close>, the file system) are
  answered by an environment record that fixes what each call returns.
  Output written with \<^verbatim>\<open>log.Printf\<close> is not part of the model.
  Go's \<^verbatim>\<open>int\<close> is modelled by \<open>int\<close>; the one place where the source does
  arithmetic on it (the conversion to a \<^verbatim>\<open>time.Duration\<close>) wraps at 64 bits.
\<close>

subsection \<open>Errors\<close>

text \<open>
  \<^verbatim>\<open>context.DeadlineExceeded\<close> and \<^verbatim>\<open>context.Canceled\<close> are the two sentinel
  errors the scan looks for; \<open>ErrorString\<close> is an error made by \<^verbatim>\<open>fmt.Errorf\<close> or
  \<^verbatim>\<open>errors.New\<close>; \<open>Wrapped\<close> is an error whose \<^verbatim>\<open>Unwrap\<close> gives the inner one.
\<close>

datatype go_error =
    DeadlineExceeded
  | Canceled
  | ErrorString string
  | Wrapped string go_error

text \<open>\<^verbatim>\<open>errors.Is(err, target)\<close>: walks the chain of \<^verbatim>\<open>Unwrap\<close>.\<close>

fun errors_Is :: "go_error \<Rightarrow> go_error \<Rightarrow> bool" where
  "errors_Is (Wrapped msg inner) target =
     (Wrapped msg inner = target \<or> errors_Is inner target)"
| "errors_Is err target = (err = target)"

subsection \<open>bluetooth.go\<close>

record Device =
  Addr :: string
  Name :: string
  RSSI :: int

text \<open>What the handler reads from a \<^verbatim>\<open>ble.Advertisement\<close>.\<close>

record Advertisement =
  adv_Addr :: string
  adv_LocalName :: string
  adv_RSSI :: int

text \<open>
  The callback \<^verbatim>\<open>advHandler\<close> (bluetooth.go, lines 45 to 57). The closure
  writes the map \<^verbatim>\<open>devices\<close> under \<^verbatim>\<open>devicesMu\<close>; here it takes the map and
  returns the new one.
\<close>

definition advHandler :: "(string \<rightharpoonup> Device) \<Rightarrow> Advertisement \<Rightarrow> (string \<rightharpoonup> Device)" where
  "advHandler devices a =
     (let addr = adv_Addr a;
          displayName = adv_LocalName a
      in if displayName = '''' then devices
         else devices(addr \<mapsto> \<lparr>Addr = addr, Name = displayName, RSSI = adv_RSSI a\<rparr>))"

text \<open>
  \<^verbatim>\<open>time.Duration(seconds) * time.Second\<close>, in nanoseconds: a product of
  \<^verbatim>\<open>int64\<close> values.
\<close>

definition time_Second :: "64 word" where
  "time_Second = 1000000000"

definition scan_timeout :: "int \<Rightarrow> 64 word" where
  "scan_timeout seconds = word_of_int seconds * time_Second"

text \<open>
  The environment of one call of \<^verbatim>\<open>scanImpl\<close>:
  \<^item> \<open>dev_NewDevice\<close>: the error of \<^verbatim>\<open>dev.NewDevice("default")\<close>, if any;
  \<^item> \<open>ble_Scan\<close>: for a context with the given timeout, the advertisements that
    \<^verbatim>\<open>ble.Scan\<close> hands to the callback, in the order in which the calls take the
    lock, and the error it returns at the end;
  \<^item> \<open>range_order\<close>: the order in which \<^verbatim>\<open>range devices\<close> visits the keys of the
    map, which Go leaves to the runtime.
\<close>

record scan_env =
  dev_NewDevice :: "go_error option"
  ble_Scan :: "64 word \<Rightarrow> Advertisement list \<times> go_error option"
  range_order :: "(string \<rightharpoonup> Device) \<Rightarrow> string list"

text \<open>The loop \<^verbatim>\<open>for _, v := range devices { res = append(res, v) }\<close>.\<close>

definition collect_results :: "string list \<Rightarrow> (string \<rightharpoonup> Device) \<Rightarrow> Device list" where
  "collect_results keys devices = List.map_filter devices keys"

text \<open>A visiting order is one of the map when it lists every key once.\<close>

definition range_ok :: "string list \<Rightarrow> (string \<rightharpoonup> Device) \<Rightarrow> bool" where
  "range_ok keys devices = (distinct keys \<and> set keys = dom devices)"

text \<open>
  \<^verbatim>\<open>scanImpl\<close> (bluetooth.go, lines 24 to 85). The result is the pair the Go
  function returns: the slice (\<open>None\<close> for \<^verbatim>\<open>nil\<close>) and the error
  (\<open>None\<close> for \<^verbatim>\<open>nil\<close>).
\<close>

definition scanImpl :: "scan_env \<Rightarrow> int \<Rightarrow> Device list option \<times> go_error option" where
  "scanImpl env seconds0 =
     (let seconds = (if seconds0 \<le> 0 then 5 else seconds0)
      in case dev_NewDevice env of
           Some err \<Rightarrow> (None, Some err)
         | None \<Rightarrow>
             (let (events, scan_err) = ble_Scan env (scan_timeout seconds);
                  devices = foldl advHandler Map.empty events;
                  res = collect_results (range_order env devices) devices
              in case scan_err of
                   None \<Rightarrow> (Some res, None)
                 | Some err \<Rightarrow>
                     if errors_Is err DeadlineExceeded \<or> errors_Is err Canceled
                     then (Some res, None)
                     else (None, Some err)))"

text \<open>\<^verbatim>\<open>BluetoothService.Scan\<close> (bluetooth.go, lines 89 to 91).\<close>

definition Scan :: "scan_env \<Rightarrow> int \<Rightarrow> Device list option \<times> go_error option" where
  "Scan env seconds = scanImpl env seconds"

subsection \<open>Formatting integers\<close>

text \<open>
  The verb \<^verbatim>\<open>%d\<close> of \<^verbatim>\<open>fmt.Sprintf\<close>: decimal digits, with a minus sign for a
  negative number.
\<close>

definition digit_char :: "nat \<Rightarrow> char" where
  "digit_char d = ''0123456789'' ! d"

fun digits_of :: "nat \<Rightarrow> string" where
  "digits_of n =
     (if n < 10 then [digit_char n]
      else digits_of (n div 10) @ [digit_char (n mod 10)])"

declare digits_of.simps [simp del]

definition itoa :: "int \<Rightarrow> string" where
  "itoa i = (if i < 0 then CHR ''-'' # digits_of (nat (- i)) else digits_of (nat i))"

subsection \<open>webDav.go: the address resolver\<close>

text \<open>
  A \<^verbatim>\<open>net.IP\<close> is a slice of bytes. The empty list stands for \<^verbatim>\<open>nil\<close>; an
  empty slice that is not \<^verbatim>\<open>nil\<close> takes the same path through \<^verbatim>\<open>localIPv4\<close>
  (it is no loopback address and \<^verbatim>\<open>To4\<close> gives \<^verbatim>\<open>nil\<close>), so the two are not
  told apart. The functions \<open>IP_To4\<close>, \<open>IP_Equal\<close>, \<open>IP_IsLoopback\<close> and \<open>IP_String\<close>
  follow the methods of Go's package \<^verbatim>\<open>net\<close>.
\<close>

type_synonym IP = "8 word list"

definition v4InV6Prefix :: IP where
  "v4InV6Prefix = [0, 0, 0, 0, 0, 0, 0, 0, 0, 0, 0xff, 0xff]"

definition IPv6loopback :: IP where
  "IPv6loopback = [0, 0, 0, 0, 0, 0, 0, 0, 0, 0, 0, 0, 0, 0, 0, 1]"

definition isZeros :: "IP \<Rightarrow> bool" where
  "isZeros p = list_all (\<lambda>b. b = 0) p"

definition IP_To4 :: "IP \<Rightarrow> IP" where
  "IP_To4 ip =
     (if length ip = 4 then ip
      else if length ip = 16 \<and> isZeros (take 10 ip) \<and> ip ! 10 = 0xff \<and> ip ! 11 = 0xff
      then drop 12 ip
      else [])"

definition IP_Equal :: "IP \<Rightarrow> IP \<Rightarrow> bool" where
  "IP_Equal ip x =
     (if length ip = length x then ip = x
      else if length ip = 4 \<and> length x = 16
      then take 12 x = v4InV6Prefix \<and> ip = drop 12 x
      else if length ip = 16 \<and> length x = 4
      then take 12 ip = v4InV6Prefix \<and> drop 12 ip = x
      else False)"

definition IP_IsLoopback :: "IP \<Rightarrow> bool" where
  "IP_IsLoopback ip =
     (let ip4 = IP_To4 ip
      in if ip4 \<noteq> [] then ip4 ! 0 = 127 else IP_Equal ip IPv6loopback)"

text \<open>
  \<^verbatim>\<open>IP.String()\<close> on a 4-byte address, the only form \<^verbatim>\<open>localIPv4\<close> prints
  (it prints a result of \<^verbatim>\<open>To4\<close> that is not \<^verbatim>\<open>nil\<close>, which has 4 bytes);
  \<^verbatim>\<open><nil>\<close> is what Go prints for an address of length 0. For every other
  length the model prints \<^verbatim>\<open>?\<close> only: the IPv6 text of a 16-byte address and the
  hexadecimal text Go appends for other lengths are not modelled.
\<close>

fun IP_String :: "IP \<Rightarrow> string" where
  "IP_String [a, b, c, d] =
     digits_of (unat a) @ ''.'' @ digits_of (unat b) @ ''.'' @
     digits_of (unat c) @ ''.'' @ digits_of (unat d)"
| "IP_String [] = ''<nil>''"
| "IP_String ip = ''?''"

text \<open>
  The values of \<^verbatim>\<open>net.Addr\<close> that the type switch of \<^verbatim>\<open>localIPv4\<close> tells
  apart: \<^verbatim>\<open>*net.IPNet\<close> (address and mask), \<^verbatim>\<open>*net.IPAddr\<close> (address and zone),
  and any other type.
\<close>

datatype net_Addr =
    IPNet IP IP
  | IPAddr IP string
  | OtherAddr string

definition FlagUp :: "64 word" where
  "FlagUp = 1"

definition FlagLoopback :: "64 word" where
  "FlagLoopback = 4"

text \<open>
  A \<^verbatim>\<open>net.Interface\<close>: its name, its flags (\<^verbatim>\<open>net.Flags\<close> is a
  \<^verbatim>\<open>uint\<close>, 64 bits wide here; \<^verbatim>\<open>net.FlagUp\<close> is \<^verbatim>\<open>1 << 0\<close> and
  \<^verbatim>\<open>net.FlagLoopback\<close> is \<^verbatim>\<open>1 << 2\<close>) and what \<^verbatim>\<open>iface.Addrs()\<close> returns.
\<close>

record Interface =
  if_Name :: string
  if_Flags :: "64 word"
  if_Addrs :: "go_error + net_Addr list"

unbundle bit_operations_syntax

text \<open>
  The inner loop of \<^verbatim>\<open>localIPv4\<close> (webDav.go, lines 149 to 166): \<open>Some s\<close> when
  the loop returns \<open>s\<close>, \<open>None\<close> when it runs to its end.
\<close>

fun first_ipv4 :: "net_Addr list \<Rightarrow> string option" where
  "first_ipv4 [] = None"
| "first_ipv4 (a # addrs) =
     (let ip = (case a of IPNet ip m \<Rightarrow> ip | IPAddr ip z \<Rightarrow> ip | OtherAddr s \<Rightarrow> [])
      in if ip = [] \<or> IP_IsLoopback ip then first_ipv4 addrs
         else (let ip4 = IP_To4 ip
               in if ip4 = [] then first_ipv4 addrs
                  else Some (IP_String ip4)))"

text \<open>The outer loop (lines 140 to 168).\<close>

fun localIPv4_loop :: "Interface list \<Rightarrow> string" where
  "localIPv4_loop [] = ''''"
| "localIPv4_loop (iface # ifaces) =
     (if if_Flags iface AND (FlagUp OR FlagLoopback) \<noteq> FlagUp then localIPv4_loop ifaces
      else case if_Addrs iface of
             Inl err \<Rightarrow> localIPv4_loop ifaces
           | Inr addrs \<Rightarrow>
               (case first_ipv4 addrs of
                  Some s \<Rightarrow> s
                | None \<Rightarrow> localIPv4_loop ifaces))"

text \<open>
  \<^verbatim>\<open>localIPv4\<close> (lines 135 to 169); the argument is what \<^verbatim>\<open>net.Interfaces()\<close>
  returns.
\<close>

definition localIPv4 :: "go_error + Interface list \<Rightarrow> string" where
  "localIPv4 interfaces =
     (case interfaces of
        Inl err \<Rightarrow> ''''
      | Inr ifaces \<Rightarrow> localIPv4_loop ifaces)"

subsection \<open>webDav.go: the service\<close>

text \<open>
  The \<^verbatim>\<open>http.Server\<close> that \<^verbatim>\<open>Start\<close> builds: the directory its WebDAV handler
  serves and its three timeouts, in seconds.
\<close>

record http_Server =
  srv_Dir :: string
  ReadTimeout :: nat
  WriteTimeout :: nat
  IdleTimeout :: nat

text \<open>A TCP listener: the port it is bound to and whether it has been closed.\<close>

record Listener =
  ln_Port :: int
  ln_closed :: bool

text \<open>
  The struct \<^verbatim>\<open>WebDAVService\<close> without its mutex: every method below runs with
  the mutex held from its first to its last statement, so calls on one service
  happen one after the other. \<open>None\<close> is a \<^verbatim>\<open>nil\<close> handle.
\<close>

record WebDAVService =
  srv :: "http_Server option"
  listener :: "Listener option"
  root :: string
  running :: bool

text \<open>
  What the file system answers to \<^verbatim>\<open>NewWebDAVService\<close>: \<^verbatim>\<open>os.Getwd()\<close>,
  \<^verbatim>\<open>os.MkdirAll(path, 0755)\<close> (its error, if any), and the library function
  \<^verbatim>\<open>filepath.Join\<close> on two elements.
\<close>

record fs_env =
  os_Getwd :: "go_error + string"
  os_MkdirAll :: "string \<Rightarrow> go_error option"
  filepath_Join :: "string \<Rightarrow> string \<Rightarrow> string"

text \<open>
  \<^verbatim>\<open>NewWebDAVService\<close> (lines 28 to 42). The error of \<^verbatim>\<open>os.MkdirAll\<close> is
  logged and dropped.
\<close>

definition NewWebDAVService :: "fs_env \<Rightarrow> string \<Rightarrow> WebDAVService" where
  "NewWebDAVService env root0 =
     (let root1 =
            (if root0 = ''''
             then (let cwd = (case os_Getwd env of Inl err \<Rightarrow> ''.'' | Inr cwd \<Rightarrow> cwd)
                   in filepath_Join env cwd ''shared'')
             else root0);
          mkdir_err = os_MkdirAll env root1
      in \<lparr>srv = None, listener = None, root = root1, running = False\<rparr>)"

text \<open>
  What the network answers to one call of \<^verbatim>\<open>Start\<close> or \<^verbatim>\<open>Stop\<close>:
  \<^item> \<open>net_Listen\<close>: for the address string given to \<^verbatim>\<open>net.Listen("tcp", addr)\<close>,
    an error or the port the new listener is bound to;
  \<^item> \<open>net_Interfaces\<close>: what \<^verbatim>\<open>net.Interfaces()\<close> returns;
  \<^item> \<open>srv_Shutdown\<close>: the error of \<^verbatim>\<open>srv.Shutdown(ctx)\<close>, if any, for a context
    with the given timeout in seconds.
\<close>

record net_env =
  net_Listen :: "string \<Rightarrow> go_error + int"
  net_Interfaces :: "go_error + Interface list"
  srv_Shutdown :: "nat \<Rightarrow> go_error option"

text \<open>
  \<^verbatim>\<open>Start\<close> (lines 46 to 98), up to its return: the new state, the returned
  string and the returned error. The goroutine it launches is \<open>serve_exit\<close> below.
\<close>

definition Start :: "net_env \<Rightarrow> WebDAVService \<Rightarrow> int \<Rightarrow> WebDAVService \<times> string \<times> go_error option" where
  "Start env w port =
     (if running w then (w, '''', Some (ErrorString ''webdav already running''))
      else
        (let server = \<lparr>srv_Dir = root w, ReadTimeout = 5, WriteTimeout = 30, IdleTimeout = 60\<rparr>;
             addr = ''0.0.0.0:'' @ itoa port
         in case net_Listen env addr of
              Inl err \<Rightarrow> (w, '''', Some err)
            | Inr bound \<Rightarrow>
                (let ln = \<lparr>ln_Port = bound, ln_closed = False\<rparr>;
                     w' = w\<lparr>srv := Some server, listener := Some ln, running := True\<rparr>;
                     host0 = localIPv4 (net_Interfaces env);
                     host = (if host0 = '''' then ''127.0.0.1'' else host0);
                     actualPort = ln_Port ln
                 in (w', host @ '':'' @ itoa actualPort, None))))"

text \<open>
  The end of the goroutine of \<^verbatim>\<open>Start\<close> (lines 85 to 88): once \<^verbatim>\<open>srv.Serve\<close>
  has returned, it takes the mutex and clears the flag.
\<close>

definition serve_exit :: "WebDAVService \<Rightarrow> WebDAVService" where
  "serve_exit w = w\<lparr>running := False\<rparr>"

text \<open>\<^verbatim>\<open>Stop\<close> (lines 101 to 120): the new state and the returned error.\<close>

definition Stop :: "net_env \<Rightarrow> WebDAVService \<Rightarrow> WebDAVService \<times> go_error option" where
  "Stop env w =
     (if \<not> running w then (w, None)
      else
        (let w1 = (case listener w of
                     None \<Rightarrow> w
                   | Some ln \<Rightarrow> w\<lparr>listener := Some (ln\<lparr>ln_closed := True\<rparr>)\<rparr>)
         in case srv w1 of
              None \<Rightarrow> (w1\<lparr>running := False\<rparr>, None)
            | Some server \<Rightarrow>
                (case srv_Shutdown env 5 of
                   Some err \<Rightarrow> (w1, Some err)
                 | None \<Rightarrow> (w1\<lparr>running := False\<rparr>, None))))"

text \<open>\<^verbatim>\<open>IsRunning\<close> and \<^verbatim>\<open>Root\<close> (lines 123 to 132).\<close>

definition IsRunning :: "WebDAVService \<Rightarrow> bool" where
  "IsRunning w = running w"

definition Root :: "WebDAVService \<Rightarrow> string" where
  "Root w = root w"

text \<open>
  A history of one service: calls of \<^verbatim>\<open>Start\<close> and \<^verbatim>\<open>Stop\<close>, each with the
  answers of the network during that call, and exits of the serving goroutine.
\<close>

datatype svc_op =
    OpStart net_env int
  | OpStop net_env
  | OpServeExit

fun apply_op :: "WebDAVService \<Rightarrow> svc_op \<Rightarrow> WebDAVService" where
  "apply_op w (OpStart env port) = fst (Start env w port)"
| "apply_op w (OpStop env) = fst (Stop env w)"
| "apply_op w OpServeExit = serve_exit w"

definition run_ops :: "WebDAVService \<Rightarrow> svc_op list \<Rightarrow> WebDAVService" where
  "run_ops w ops = foldl apply_op w ops"

section \<open>Notions used to state the properties\<close>

text \<open>The \<^verbatim>\<open>Device\<close> that line 55 of bluetooth.go builds from an advertisement.\<close>

definition device_of_adv :: "Advertisement \<Rightarrow> Device" where
  "device_of_adv a = \<lparr>Addr = adv_Addr a, Name = adv_LocalName a, RSSI = adv_RSSI a\<rparr>"

text \<open>Every entry of the map sits under its own address and has a name.\<close>

definition keyed :: "(string \<rightharpoonup> Device) \<Rightarrow> bool" where
  "keyed m = (\<forall>k d. m k = Some d \<longrightarrow> Addr d = k \<and> Name d \<noteq> '''')"

text \<open>
  The two flag bits that \<^verbatim>\<open>localIPv4\<close> tests: \<^verbatim>\<open>net.FlagUp\<close> is bit 0 and
  \<^verbatim>\<open>net.FlagLoopback\<close> is bit 2.
\<close>

definition iface_up :: "Interface \<Rightarrow> bool" where
  "iface_up i = bit (if_Flags i) 0"

definition iface_loopback :: "Interface \<Rightarrow> bool" where
  "iface_loopback i = bit (if_Flags i) 2"

text \<open>The address inside a \<^verbatim>\<open>net.Addr\<close>, as the type switch finds it.\<close>

definition addr_ip :: "net_Addr \<Rightarrow> IP" where
  "addr_ip a = (case a of IPNet ip m \<Rightarrow> ip | IPAddr ip z \<Rightarrow> ip | OtherAddr s \<Rightarrow> [])"

text \<open>An address that is not a loopback address and can be written as IPv4.\<close>

definition usable_addr :: "net_Addr \<Rightarrow> bool" where
  "usable_addr a = (\<not> IP_IsLoopback (addr_ip a) \<and> IP_To4 (addr_ip a) \<noteq> [])"

text \<open>The addresses of an interface; none when \<^verbatim>\<open>iface.Addrs()\<close> fails.\<close>

definition iface_addrs :: "Interface \<Rightarrow> net_Addr list" where
  "iface_addrs i = (case if_Addrs i of Inl err \<Rightarrow> [] | Inr addrs \<Rightarrow> addrs)"

text \<open>
  The addresses of all interfaces that are up and not loopback, in the order of
  the enumeration.
\<close>

definition candidate_addrs :: "Interface list \<Rightarrow> net_Addr list" where
  "candidate_addrs ifaces =
     concat (map iface_addrs (filter (\<lambda>i. iface_up i \<and> \<not> iface_loopback i) ifaces))"

text \<open>The text of the first usable address of a list, or the empty string.\<close>

definition first_usable :: "net_Addr list \<Rightarrow> string" where
  "first_usable addrs =
     (case filter usable_addr addrs of
        [] \<Rightarrow> ''''
      | a # rest \<Rightarrow> IP_String (IP_To4 (addr_ip a)))"

text \<open>
  The resolver as the specification words it: take the first interface that is
  up, not loopback and has at least one assigned address, and return the first
  usable address of that interface.
\<close>

definition resolveLocalIPv4_as_specified :: "Interface list \<Rightarrow> string" where
  "resolveLocalIPv4_as_specified ifaces =
     (case filter (\<lambda>i. iface_up i \<and> \<not> iface_loopback i \<and> iface_addrs i \<noteq> []) ifaces of
        [] \<Rightarrow> ''''
      | i # rest \<Rightarrow> first_usable (iface_addrs i))"

text \<open>Both handles of the service are set.\<close>

definition handles_present :: "WebDAVService \<Rightarrow> bool" where
  "handles_present w = (listener w \<noteq> None \<and> srv w \<noteq> None)"

section \<open>Concrete inputs\<close>

text \<open>
  A scan that sees the same peer twice and an unnamed peer once, and ends at its
  deadline.
\<close>

definition scenario_env :: scan_env where
  "scenario_env =
     \<lparr>dev_NewDevice = None,
      ble_Scan = (\<lambda>timeout.
        ([\<lparr>adv_Addr = ''A'', adv_LocalName = ''x'', adv_RSSI = - 40\<rparr>,
          \<lparr>adv_Addr = ''A'', adv_LocalName = ''x'', adv_RSSI = - 30\<rparr>,
          \<lparr>adv_Addr = ''B'', adv_LocalName = '''', adv_RSSI = - 50\<rparr>],
         Some DeadlineExceeded)),
      range_order = (\<lambda>devices. [''A''])\<rparr>"

text \<open>A scan that is cancelled before anything is seen.\<close>

definition cancel_env :: scan_env where
  "cancel_env = scenario_env\<lparr>ble_Scan := (\<lambda>timeout. ([], Some (Wrapped ''scan'' Canceled)))\<rparr>"

text \<open>A scan that sees one peer and then fails.\<close>

definition broken_env :: scan_env where
  "broken_env = scenario_env\<lparr>ble_Scan := (\<lambda>timeout.
     ([\<lparr>adv_Addr = ''A'', adv_LocalName = ''x'', adv_RSSI = - 40\<rparr>],
      Some (ErrorString ''adapter reset'')))\<rparr>"

text \<open>A BLE stack that only works with a timeout of five seconds.\<close>

definition five_only_env :: scan_env where
  "five_only_env =
     \<lparr>dev_NewDevice = None,
      ble_Scan = (\<lambda>timeout.
        if timeout = 5000000000
        then ([\<lparr>adv_Addr = ''C'', adv_LocalName = ''pad'', adv_RSSI = - 61\<rparr>],
              Some DeadlineExceeded)
        else ([], Some (ErrorString ''unexpected timeout''))),
      range_order = (\<lambda>devices. [''C''])\<rparr>"

text \<open>
  Three interfaces: the loopback interface, an interface that is up with a
  link-local IPv6 address only, and an interface that is up with an IPv4 address.
\<close>

definition loopback_iface :: Interface where
  "loopback_iface =
     \<lparr>if_Name = ''lo'', if_Flags = 5,
      if_Addrs = Inr [IPNet [127, 0, 0, 1] [255, 0, 0, 0]]\<rparr>"

definition ipv6_only_iface :: Interface where
  "ipv6_only_iface =
     \<lparr>if_Name = ''eth0'', if_Flags = 19,
      if_Addrs = Inr [IPNet [0xfe, 0x80, 0, 0, 0, 0, 0, 0, 0, 0, 0, 0, 0, 0, 0, 1]
                        [0xff, 0xff, 0xff, 0xff, 0xff, 0xff, 0xff, 0xff, 0, 0, 0, 0, 0, 0, 0, 0]]\<rparr>"

definition lan_iface :: Interface where
  "lan_iface =
     \<lparr>if_Name = ''eth1'', if_Flags = 19,
      if_Addrs = Inr [IPNet [192, 168, 1, 5] [255, 255, 255, 0]]\<rparr>"

text \<open>A file system, and one on which no directory can be created.\<close>

definition demo_fs :: fs_env where
  "demo_fs =
     \<lparr>os_Getwd = Inr ''/home/u'',
      os_MkdirAll = (\<lambda>path. None),
      filepath_Join = (\<lambda>dir name. dir @ ''/'' @ name)\<rparr>"

definition readonly_fs :: fs_env where
  "readonly_fs = demo_fs\<lparr>os_MkdirAll := (\<lambda>path. Some (ErrorString ''read-only file system''))\<rparr>"

text \<open>
  A network that gives port 49152 to a request for port 0; one with the loopback
  interface only; one whose server does not shut down within the grace period.
\<close>

definition demo_net :: net_env where
  "demo_net =
     \<lparr>net_Listen = (\<lambda>addr. if addr = ''0.0.0.0:0'' then Inr 49152
                            else Inl (ErrorString ''address already in use'')),
      net_Interfaces = Inr [loopback_iface, ipv6_only_iface, lan_iface],
      srv_Shutdown = (\<lambda>grace. None)\<rparr>"

definition loopback_only_net :: net_env where
  "loopback_only_net = demo_net\<lparr>net_Interfaces := Inr [loopback_iface]\<rparr>"

definition slow_shutdown_net :: net_env where
  "slow_shutdown_net = demo_net\<lparr>srv_Shutdown := (\<lambda>grace. Some DeadlineExceeded)\<rparr>"

definition fresh_service :: WebDAVService where
  "fresh_service = NewWebDAVService demo_fs ''''"

definition started_service :: WebDAVService where
  "started_service = fst (Start demo_net fresh_service 0)"

section \<open>The scan\<close>

subsection \<open>What the handler leaves in the map\<close>

lemma advHandler_fold_lookup:
  "foldl advHandler m evs a =
     (case filter (\<lambda>e. adv_Addr e = a \<and> adv_LocalName e \<noteq> '''') evs of
        [] \<Rightarrow> m a
      | e # es \<Rightarrow> Some \<lparr>Addr = a, Name = adv_LocalName (last (e # es)),
                       RSSI = adv_RSSI (last (e # es))\<rparr>)"
proof (induction evs rule: rev_induct)
  case Nil
  then show ?case by simp
next
  case (snoc x xs)
  then show ?case
    by (auto simp: advHandler_def Let_def split: list.splits)
qed

lemma keyed_advHandler: "keyed m \<Longrightarrow> keyed (advHandler m e)"
  by (auto simp: keyed_def advHandler_def Let_def)

lemma keyed_fold: "keyed m \<Longrightarrow> keyed (foldl advHandler m evs)"
  by (induction evs arbitrary: m) (simp_all add: keyed_advHandler)

subsection \<open>What the final loop collects\<close>

lemma filter_collect:
  "distinct ks \<Longrightarrow> keyed m \<Longrightarrow>
   filter (\<lambda>d. Addr d = a) (collect_results ks m) =
     (if a \<in> set ks then (case m a of None \<Rightarrow> [] | Some d \<Rightarrow> [d]) else [])"
proof (induction ks)
  case Nil
  then show ?case by (simp add: collect_results_def)
next
  case (Cons k ks)
  then show ?case
    by (cases "m k") (auto simp: collect_results_def keyed_def split: option.splits)
qed

lemma set_collect: "set (collect_results ks m) = {d. \<exists>k\<in>set ks. m k = Some d}"
  by (force simp: collect_results_def map_filter_def image_iff)

lemma collect_results_all:
  assumes "range_ok ks m"
  shows "set (collect_results ks m) = ran m" "length (collect_results ks m) = card (dom m)"
proof -
  from assms have d: "distinct ks" and s: "set ks = dom m"
    by (simp_all add: range_ok_def)
  show "set (collect_results ks m) = ran m"
    by (auto simp: set_collect s ran_def)
  have "filter (\<lambda>k. m k \<noteq> None) ks = ks"
    using s by (auto simp: filter_id_conv)
  then have "length (collect_results ks m) = length ks"
    by (simp add: collect_results_def map_filter_def)
  also have "\<dots> = card (dom m)"
    using d s distinct_card by fastforce
  finally show "length (collect_results ks m) = card (dom m)" .
qed

lemma scanImpl_success:
  assumes "scanImpl env seconds = (Some res, None)"
      and "ble_Scan env (scan_timeout (if seconds \<le> 0 then 5 else seconds)) = (events, scan_err)"
  shows "res = collect_results (range_order env (foldl advHandler Map.empty events))
                 (foldl advHandler Map.empty events)"
  using assms by (auto simp: scanImpl_def Let_def split: option.splits if_splits)

lemma scenario_result:
  "scanImpl scenario_env 2 = (Some [\<lparr>Addr = ''A'', Name = ''x'', RSSI = - 30\<rparr>], None)"
  by (simp add: scanImpl_def scenario_env_def advHandler_def collect_results_def
      map_filter_def Let_def)

lemma scan_timeout_5: "scan_timeout 5 = 5000000000"
  by (simp add: scan_timeout_def time_Second_def)

subsection \<open>The last named event of an address wins\<close>

text \<open>
  C1. Take a scan that returns a list \<open>res\<close>, the events \<open>events\<close> that were
  delivered during it, and any peer address \<open>a\<close>. Among the returned devices, the
  ones with address \<open>a\<close> are: none, when no event of \<open>a\<close> carried a name; otherwise
  exactly one, the device built from the last event of \<open>a\<close> with a non-empty name.
  Every returned device is built from an event with a non-empty name, so an event
  without a name contributes nothing.
\<close>

theorem scan_last_named_event_wins:
  assumes "scanImpl env seconds = (Some res, None)"
      and "ble_Scan env (scan_timeout (if seconds \<le> 0 then 5 else seconds)) = (events, scan_err)"
      and "range_ok (range_order env (foldl advHandler Map.empty events))
             (foldl advHandler Map.empty events)"
  shows "filter (\<lambda>d. Addr d = a) res =
           (case filter (\<lambda>e. adv_Addr e = a \<and> adv_LocalName e \<noteq> '''') events of
              [] \<Rightarrow> []
            | e # es \<Rightarrow> [device_of_adv (last (e # es))])
         \<and> (\<forall>d\<in>set res. \<exists>e\<in>set events. adv_LocalName e \<noteq> '''' \<and> d = device_of_adv e)"
proof -
  let ?m = "foldl advHandler Map.empty events"
  let ?ks = "range_order env ?m"
  have res: "res = collect_results ?ks ?m"
    using assms(1,2) by (rule scanImpl_success)
  have k: "keyed ?m"
    by (rule keyed_fold) (simp add: keyed_def)
  have d: "distinct ?ks" and s: "set ?ks = dom ?m"
    using assms(3) by (simp_all add: range_ok_def)
  have look: "?m b =
      (case filter (\<lambda>e. adv_Addr e = b \<and> adv_LocalName e \<noteq> '''') events of
         [] \<Rightarrow> None
       | e # es \<Rightarrow> Some \<lparr>Addr = b, Name = adv_LocalName (last (e # es)),
                        RSSI = adv_RSSI (last (e # es))\<rparr>)" for b
    by (simp add: advHandler_fold_lookup)
  have one: "filter (\<lambda>d. Addr d = a) res =
           (case filter (\<lambda>e. adv_Addr e = a \<and> adv_LocalName e \<noteq> '''') events of
              [] \<Rightarrow> []
            | e # es \<Rightarrow> [device_of_adv (last (e # es))])"
  proof (cases "filter (\<lambda>e. adv_Addr e = a \<and> adv_LocalName e \<noteq> '''') events")
    case Nil
    then have "?m a = None" by (simp add: look)
    then show ?thesis using Nil d k by (simp add: res filter_collect)
  next
    case (Cons e es)
    have "last (e # es) \<in> set (filter (\<lambda>e. adv_Addr e = a \<and> adv_LocalName e \<noteq> '''') events)"
      unfolding Cons by (rule last_in_set) simp
    then have addr: "adv_Addr (last (e # es)) = a" by simp
    have "?m a = Some (device_of_adv (last (e # es)))"
      using Cons addr by (simp add: look device_of_adv_def)
    moreover from this have "a \<in> set ?ks" using s by blast
    ultimately show ?thesis using Cons d k by (simp add: res filter_collect)
  qed
  have two: "\<exists>e\<in>set events. adv_LocalName e \<noteq> '''' \<and> d = device_of_adv e"
    if "d \<in> set res" for d
  proof -
    from that obtain b where b: "?m b = Some d"
      by (auto simp: res set_collect)
    show ?thesis
    proof (cases "filter (\<lambda>e. adv_Addr e = b \<and> adv_LocalName e \<noteq> '''') events")
      case Nil
      then show ?thesis using b by (simp add: look)
    next
      case (Cons e es)
      have "last (e # es) \<in> set (filter (\<lambda>e. adv_Addr e = b \<and> adv_LocalName e \<noteq> '''') events)"
        unfolding Cons by (rule last_in_set) simp
      then have "adv_Addr (last (e # es)) = b" "adv_LocalName (last (e # es)) \<noteq> ''''"
                "last (e # es) \<in> set events"
        by simp_all
      moreover have "d = \<lparr>Addr = b, Name = adv_LocalName (last (e # es)),
                          RSSI = adv_RSSI (last (e # es))\<rparr>"
        using b Cons by (simp add: look)
      ultimately show ?thesis
        by (intro bexI [of _ "last (e # es)"]) (simp_all add: device_of_adv_def)
    qed
  qed
  from one two show ?thesis by blast
qed

text \<open>
  The scenario of the specification: two events of \<open>A\<close> named \<open>x\<close> with signal
  strengths -40 and -30, one unnamed event of \<open>B\<close>. The scan returns the one device
  \<open>{A, x, -30}\<close>.
\<close>

theorem scan_last_named_event_wins_witness:
  "scanImpl scenario_env 2 = (Some [\<lparr>Addr = ''A'', Name = ''x'', RSSI = - 30\<rparr>], None)
   \<and> range_ok
        (range_order scenario_env
           (foldl advHandler Map.empty (fst (ble_Scan scenario_env (scan_timeout 2)))))
        (foldl advHandler Map.empty (fst (ble_Scan scenario_env (scan_timeout 2))))
   \<and> filter (\<lambda>d. Addr d = ''A'') [\<lparr>Addr = ''A'', Name = ''x'', RSSI = - 30\<rparr>]
        = [\<lparr>Addr = ''A'', Name = ''x'', RSSI = - 30\<rparr>]
   \<and> filter (\<lambda>d. Addr d = ''B'') [\<lparr>Addr = ''A'', Name = ''x'', RSSI = - 30\<rparr>] = []"
  using scan_last_named_event_wins [of scenario_env 2
      "[\<lparr>Addr = ''A'', Name = ''x'', RSSI = - 30\<rparr>]"
      "fst (ble_Scan scenario_env (scan_timeout 2))" "Some DeadlineExceeded" "''A''"]
  by (simp add: scenario_result)
     (simp add: scenario_env_def range_ok_def advHandler_def Let_def device_of_adv_def)

subsection \<open>How the scan ends\<close>

text \<open>
  C4. Let the BLE device be available and let \<^verbatim>\<open>ble.Scan\<close> end with an error
  \<open>err\<close> after delivering \<open>events\<close>. If \<open>err\<close> is, or wraps, the deadline or the
  cancellation error, the scan returns no error and the list collected from the
  map those events left; that list holds exactly the values of the map, each once
  (it is empty when the map is). For any other \<open>err\<close> the scan returns \<open>err\<close> and
  a \<^verbatim>\<open>nil\<close> list.
\<close>

theorem scan_deadline_or_cancel_succeeds:
  assumes "dev_NewDevice env = None"
      and "ble_Scan env (scan_timeout (if seconds \<le> 0 then 5 else seconds)) = (events, Some err)"
  shows "(if errors_Is err DeadlineExceeded \<or> errors_Is err Canceled
          then scanImpl env seconds =
                 (Some (collect_results (range_order env (foldl advHandler Map.empty events))
                          (foldl advHandler Map.empty events)), None)
          else scanImpl env seconds = (None, Some err))
         \<and> (range_ok (range_order env (foldl advHandler Map.empty events))
                (foldl advHandler Map.empty events) \<longrightarrow>
              set (collect_results (range_order env (foldl advHandler Map.empty events))
                     (foldl advHandler Map.empty events))
                = ran (foldl advHandler Map.empty events)
              \<and> length (collect_results (range_order env (foldl advHandler Map.empty events))
                     (foldl advHandler Map.empty events))
                = card (dom (foldl advHandler Map.empty events)))"
  using assms by (simp add: scanImpl_def Let_def collect_results_all)

text \<open>
  A scan that ends at its deadline with one device, a cancelled scan with none,
  and a scan that fails after it has seen a device: the device is not returned.
\<close>

theorem scan_deadline_or_cancel_succeeds_witness:
  "scanImpl scenario_env 2 = (Some [\<lparr>Addr = ''A'', Name = ''x'', RSSI = - 30\<rparr>], None)
   \<and> scanImpl cancel_env 2 = (Some [], None)
   \<and> scanImpl broken_env 2 = (None, Some (ErrorString ''adapter reset''))"
  using scan_deadline_or_cancel_succeeds [of scenario_env 2
          "fst (ble_Scan scenario_env (scan_timeout 2))" DeadlineExceeded]
        scan_deadline_or_cancel_succeeds [of cancel_env 2 "[]" "Wrapped ''scan'' Canceled"]
        scan_deadline_or_cancel_succeeds [of broken_env 2
          "fst (ble_Scan broken_env (scan_timeout 2))" "ErrorString ''adapter reset''"]
  by (simp add: scenario_env_def cancel_env_def broken_env_def advHandler_def Let_def
      collect_results_def map_filter_def range_ok_def)

subsection \<open>The default duration\<close>

text \<open>
  C6. For \<open>seconds \<le> 0\<close> a scan returns what a scan of 5 seconds returns, and
  nothing else of the BLE stack matters than what it does with a timeout of
  5 000 000 000 nanoseconds: that is the timeout the call passes on.
\<close>

theorem scan_nonpositive_seconds_is_five:
  assumes "seconds \<le> 0"
  shows "Scan env seconds = Scan env 5
         \<and> Scan env seconds =
             Scan (env\<lparr>ble_Scan := (\<lambda>timeout. ble_Scan env 5000000000)\<rparr>) seconds"
  using assms
  by (cases "dev_NewDevice env") (simp_all add: Scan_def scanImpl_def scan_timeout_5)

theorem scan_nonpositive_seconds_is_five_witness:
  "(- 3 :: int) \<le> 0
   \<and> Scan five_only_env (- 3) = Scan five_only_env 5
   \<and> Scan five_only_env (- 3) = (Some [\<lparr>Addr = ''C'', Name = ''pad'', RSSI = - 61\<rparr>], None)"
  using scan_nonpositive_seconds_is_five [of "- 3" five_only_env]
  by (simp add: Scan_def scanImpl_def five_only_env_def scan_timeout_def
      time_Second_def advHandler_def Let_def collect_results_def map_filter_def)

section \<open>Formatting\<close>

lemma digits_of_small: "n < 10 \<Longrightarrow> digits_of n = [digit_char n]"
  by (subst digits_of.simps) simp

lemma digits_of_big:
  "10 \<le> n \<Longrightarrow> digits_of n = digits_of (n div 10) @ [digit_char (n mod 10)]"
  by (subst digits_of.simps) simp

lemma digits_of_nonempty: "digits_of n \<noteq> []"
  by (subst digits_of.simps) simp

lemma digit_char_zero: "n < 10 \<Longrightarrow> digit_char n = CHR ''0'' \<longleftrightarrow> n = 0"
  by (auto simp: eval_nat_numeral less_Suc_eq digit_char_def)

lemma digits_of_zero_iff: "digits_of n = ''0'' \<longleftrightarrow> n = 0"
proof (cases "n < 10")
  case True
  then show ?thesis by (simp add: digits_of_small digit_char_zero)
next
  case False
  then have "digits_of n = digits_of (n div 10) @ [digit_char (n mod 10)]"
    by (simp add: digits_of_big)
  moreover have "digits_of (n div 10) \<noteq> []" by (rule digits_of_nonempty)
  ultimately show ?thesis using False by (cases "digits_of (n div 10)") auto
qed

lemma itoa_zero_iff: "itoa p = ''0'' \<longleftrightarrow> p = 0"
  by (auto simp: itoa_def digits_of_zero_iff)

lemma itoa_0: "itoa 0 = ''0''"
  by (simp add: itoa_def digits_of_small digit_char_def)

lemma itoa_49152: "itoa 49152 = ''49152''"
  by (simp add: itoa_def digits_of_small digits_of_big digit_char_def)

section \<open>The address resolver\<close>

subsection \<open>The flag test\<close>

lemma bit_five: "bit (5 :: 64 word) n \<longleftrightarrow> n = 0 \<or> n = 2"
proof -
  have "(5 :: 64 word) = 1 OR push_bit 2 1" by simp
  then show ?thesis
    by (simp only: bit_or_iff bit_push_bit_iff bit_1_iff) auto
qed

lemma flags_test:
  "(f AND (FlagUp OR FlagLoopback) = FlagUp) \<longleftrightarrow> (bit f 0 \<and> \<not> bit f 2)"
  for f :: "64 word"
proof -
  have m: "FlagUp OR FlagLoopback = (5 :: 64 word)"
    by (simp add: FlagUp_def FlagLoopback_def)
  have "(f AND 5 = 1) \<longleftrightarrow> (bit f 0 \<and> \<not> bit f 2)"
  proof
    assume h: "f AND 5 = 1"
    have "bit (f AND 5) 0 = bit (1 :: 64 word) 0" "bit (f AND 5) 2 = bit (1 :: 64 word) 2"
      by (simp_all only: h)
    then show "bit f 0 \<and> \<not> bit f 2"
      by (simp add: bit_and_iff bit_five bit_1_iff)
  next
    assume h: "bit f 0 \<and> \<not> bit f 2"
    show "f AND 5 = 1"
    proof (rule bit_eqI)
      fix n
      show "bit (f AND 5) n = bit (1 :: 64 word) n"
        by (simp only: bit_and_iff bit_five bit_1_iff) (use h in auto)
    qed
  qed
  then show ?thesis
    by (simp add: m) (simp add: FlagUp_def)
qed

subsection \<open>The two loops as a search\<close>

lemma IP_To4_Nil: "IP_To4 [] = []"
  by (simp add: IP_To4_def)

lemma IP_To4_length: "IP_To4 ip \<noteq> [] \<Longrightarrow> length (IP_To4 ip) = 4"
  by (auto simp: IP_To4_def split: if_splits)

lemma IP_String_nonempty: "length ip = 4 \<Longrightarrow> IP_String ip \<noteq> ''''"
proof -
  assume "length ip = 4"
  then obtain a b c d where "ip = [a, b, c, d]"
    by (auto simp: length_Suc_conv eval_nat_numeral)
  then show ?thesis by (simp add: digits_of_nonempty)
qed

lemma first_ipv4_filter:
  "first_ipv4 addrs =
     (case filter usable_addr addrs of
        [] \<Rightarrow> None
      | a # rest \<Rightarrow> Some (IP_String (IP_To4 (addr_ip a))))"
proof (induction addrs)
  case Nil
  then show ?case by simp
next
  case (Cons a addrs)
  have ip: "(case a of IPNet ip m \<Rightarrow> ip | IPAddr ip z \<Rightarrow> ip | OtherAddr s \<Rightarrow> []) = addr_ip a"
    by (simp add: addr_ip_def)
  show ?case
    using Cons by (auto simp: ip usable_addr_def Let_def IP_To4_Nil)
qed

lemma localIPv4_loop_filter:
  "localIPv4_loop ifaces = first_usable (candidate_addrs ifaces)"
proof (induction ifaces)
  case Nil
  then show ?case by (simp add: candidate_addrs_def first_usable_def)
next
  case (Cons i ifaces)
  show ?case
  proof (cases "iface_up i \<and> \<not> iface_loopback i")
    case False
    then have "if_Flags i AND (FlagUp OR FlagLoopback) \<noteq> FlagUp"
      by (simp add: flags_test iface_up_def iface_loopback_def)
    then show ?thesis using False Cons by (auto simp: candidate_addrs_def)
  next
    case True
    then have keep: "if_Flags i AND (FlagUp OR FlagLoopback) = FlagUp"
      by (simp add: flags_test iface_up_def iface_loopback_def)
    have cand: "candidate_addrs (i # ifaces) = iface_addrs i @ candidate_addrs ifaces"
      using True by (simp add: candidate_addrs_def)
    show ?thesis
    proof (cases "if_Addrs i")
      case (Inl err)
      then show ?thesis using keep Cons by (simp add: cand iface_addrs_def)
    next
      case (Inr addrs)
      then show ?thesis
        using keep Cons
        by (simp add: cand iface_addrs_def first_ipv4_filter first_usable_def
            split: list.splits)
    qed
  qed
qed

lemma first_usable_empty_iff:
  "first_usable addrs = '''' \<longleftrightarrow> filter usable_addr addrs = []"
proof (cases "filter usable_addr addrs")
  case Nil
  then show ?thesis by (simp add: first_usable_def)
next
  case (Cons a rest)
  then have "a \<in> set (filter usable_addr addrs)" by simp
  then have "IP_To4 (addr_ip a) \<noteq> []" by (simp add: usable_addr_def)
  then have "IP_String (IP_To4 (addr_ip a)) \<noteq> ''''"
    by (intro IP_String_nonempty IP_To4_length)
  then show ?thesis using Cons by (simp add: first_usable_def)
qed

lemma usable_lan: "usable_addr (IPNet [192, 168, 1, 5] [255, 255, 255, 0])"
  by (simp add: usable_addr_def addr_ip_def IP_IsLoopback_def IP_To4_def)

lemma unusable_v6:
  "\<not> usable_addr (IPNet [0xfe, 0x80, 0, 0, 0, 0, 0, 0, 0, 0, 0, 0, 0, 0, 0, 1] m)"
  by (simp add: usable_addr_def addr_ip_def IP_To4_def isZeros_def)

lemma demo_host:
  "localIPv4 (Inr [loopback_iface, ipv6_only_iface, lan_iface]) = ''192.168.1.5''"
  by (simp add: localIPv4_def loopback_iface_def ipv6_only_iface_def lan_iface_def
      FlagUp_def FlagLoopback_def IP_IsLoopback_def IP_To4_def isZeros_def Let_def
      IP_Equal_def IPv6loopback_def digits_of_small digits_of_big digit_char_def)

lemma loopback_host: "localIPv4 (Inr [loopback_iface]) = ''''"
  by (simp add: localIPv4_def loopback_iface_def FlagUp_def FlagLoopback_def)

subsection \<open>The address that is returned\<close>

text \<open>
  C8, as stated, at the host with the interfaces \<open>lo\<close> (loopback), \<open>eth0\<close> (up,
  one link-local IPv6 address) and \<open>eth1\<close> (up, 192.168.1.5). The first interface
  that is up, not loopback and has an assigned address is \<open>eth0\<close>; it has no
  address that can be written as IPv4. The code goes on to \<open>eth1\<close> and returns
  its address; the resolver as specified stays with \<open>eth0\<close>.
\<close>

theorem localIPv4_not_first_interface_counterexample:
  "localIPv4 (Inr [loopback_iface, ipv6_only_iface, lan_iface]) = ''192.168.1.5''
   \<and> resolveLocalIPv4_as_specified [loopback_iface, ipv6_only_iface, lan_iface] = ''''"
  by (simp add: demo_host)
     (simp add: loopback_iface_def ipv6_only_iface_def lan_iface_def
      resolveLocalIPv4_as_specified_def iface_up_def iface_loopback_def iface_addrs_def
      first_usable_def unusable_v6)

text \<open>
  C8, amended. When the interfaces cannot be enumerated the result is the empty
  string. Otherwise the result is the text of the first address that is not a
  loopback address and can be written as IPv4, searched through the addresses of
  all interfaces that are up and not loopback, in the order of the enumeration (an
  interface whose addresses cannot be read has none): the search goes on to the next
  interface when an interface has no such address. The result is the empty string
  exactly when there is no such address, in particular when every interface is
  down or loopback.
\<close>

theorem localIPv4_first_usable_address:
  "localIPv4 (Inl err) = ''''
   \<and> localIPv4 (Inr ifaces) = first_usable (candidate_addrs ifaces)
   \<and> (localIPv4 (Inr ifaces) = '''' \<longleftrightarrow> filter usable_addr (candidate_addrs ifaces) = [])
   \<and> ((\<forall>i\<in>set ifaces. \<not> iface_up i \<or> iface_loopback i) \<longrightarrow> localIPv4 (Inr ifaces) = '''')"
proof -
  have "candidate_addrs ifaces = []" if "\<forall>i\<in>set ifaces. \<not> iface_up i \<or> iface_loopback i"
  proof -
    from that have "filter (\<lambda>i. iface_up i \<and> \<not> iface_loopback i) ifaces = []"
      by (auto simp: filter_empty_conv)
    then show ?thesis by (simp add: candidate_addrs_def)
  qed
  then have "(\<forall>i\<in>set ifaces. \<not> iface_up i \<or> iface_loopback i) \<longrightarrow>
               first_usable (candidate_addrs ifaces) = ''''"
    by (simp add: first_usable_def)
  then show ?thesis
    by (simp add: localIPv4_def localIPv4_loop_filter first_usable_empty_iff)
qed

text \<open>A host with the loopback interface only, and the host of three interfaces.\<close>

theorem localIPv4_first_usable_address_witness:
  "iface_loopback loopback_iface
   \<and> localIPv4 (Inr [loopback_iface]) = ''''
   \<and> localIPv4 (Inr [loopback_iface, ipv6_only_iface, lan_iface]) = ''192.168.1.5''
   \<and> first_usable (candidate_addrs [loopback_iface, ipv6_only_iface, lan_iface])
       = ''192.168.1.5''"
  using localIPv4_first_usable_address [of Canceled "[loopback_iface]"]
    localIPv4_first_usable_address [of Canceled "[loopback_iface, ipv6_only_iface, lan_iface]"]
  by (simp add: loopback_iface_def ipv6_only_iface_def lan_iface_def iface_up_def
      iface_loopback_def candidate_addrs_def iface_addrs_def first_usable_def
      unusable_v6 usable_lan IP_To4_def addr_ip_def digits_of_small digits_of_big
      digit_char_def)

section \<open>The WebDAV service\<close>

subsection \<open>The concrete service\<close>

lemma fresh_service_value:
  "fresh_service = \<lparr>srv = None, listener = None, root = ''/home/u/shared'', running = False\<rparr>"
  by (simp add: fresh_service_def NewWebDAVService_def demo_fs_def)

lemma start_demo:
  "Start demo_net fresh_service 0 =
     (\<lparr>srv = Some \<lparr>srv_Dir = ''/home/u/shared'', ReadTimeout = 5, WriteTimeout = 30,
                   IdleTimeout = 60\<rparr>,
       listener = Some \<lparr>ln_Port = 49152, ln_closed = False\<rparr>,
       root = ''/home/u/shared'', running = True\<rparr>,
      ''192.168.1.5:49152'', None)"
  by (simp add: Start_def fresh_service_value demo_net_def itoa_0 itoa_49152 demo_host)

lemma start_loopback_only:
  "Start loopback_only_net fresh_service 0 =
     (\<lparr>srv = Some \<lparr>srv_Dir = ''/home/u/shared'', ReadTimeout = 5, WriteTimeout = 30,
                   IdleTimeout = 60\<rparr>,
       listener = Some \<lparr>ln_Port = 49152, ln_closed = False\<rparr>,
       root = ''/home/u/shared'', running = True\<rparr>,
      ''127.0.0.1:49152'', None)"
  by (simp add: Start_def fresh_service_value loopback_only_net_def demo_net_def itoa_0
      itoa_49152 loopback_host)

lemma started_service_value:
  "started_service =
     \<lparr>srv = Some \<lparr>srv_Dir = ''/home/u/shared'', ReadTimeout = 5, WriteTimeout = 30,
                  IdleTimeout = 60\<rparr>,
      listener = Some \<lparr>ln_Port = 49152, ln_closed = False\<rparr>,
      root = ''/home/u/shared'', running = True\<rparr>"
  by (simp add: started_service_def start_demo)

subsection \<open>Construction\<close>

text \<open>
  C10. \<^verbatim>\<open>NewWebDAVService\<close> returns a service for every argument: its handles
  are \<^verbatim>\<open>nil\<close>, it is not running, and its root is the argument, or, for the
  empty argument, \<^verbatim>\<open>filepath.Join(cwd, "shared")\<close> where \<open>cwd\<close> is the working
  directory (\<^verbatim>\<open>"."\<close> when it cannot be read). What \<^verbatim>\<open>os.MkdirAll\<close> answers
  changes nothing of the result.
\<close>

theorem new_service_never_fails:
  "NewWebDAVService env r =
     \<lparr>srv = None, listener = None,
      root = (if r = ''''
              then filepath_Join env
                     (case os_Getwd env of Inl err \<Rightarrow> ''.'' | Inr cwd \<Rightarrow> cwd) ''shared''
              else r),
      running = False\<rparr>
   \<and> NewWebDAVService (env\<lparr>os_MkdirAll := mkdir\<rparr>) r = NewWebDAVService env r
   \<and> \<not> IsRunning (NewWebDAVService env r)
   \<and> Root (NewWebDAVService env r) = root (NewWebDAVService env r)"
  by (simp add: NewWebDAVService_def IsRunning_def Root_def)

text \<open>On a file system where the directory cannot be created.\<close>

theorem new_service_never_fails_witness:
  "NewWebDAVService readonly_fs '''' =
     \<lparr>srv = None, listener = None, root = ''/home/u/shared'', running = False\<rparr>
   \<and> NewWebDAVService readonly_fs ''/srv/files'' =
     \<lparr>srv = None, listener = None, root = ''/srv/files'', running = False\<rparr>"
  using new_service_never_fails [of readonly_fs "''''"]
    new_service_never_fails [of readonly_fs "''/srv/files''"]
  by (simp add: readonly_fs_def demo_fs_def)

subsection \<open>Start\<close>

text \<open>
  C5. On a running service \<^verbatim>\<open>Start\<close> returns the error
  \<^verbatim>\<open>webdav already running\<close> and the empty string, for every port, and the
  service is the one it was: flag, listener, server and root.
\<close>

theorem start_while_running_is_rejected:
  "running w \<Longrightarrow> Start env w port = (w, '''', Some (ErrorString ''webdav already running''))"
  by (simp add: Start_def)

theorem start_while_running_is_rejected_witness:
  "running started_service
   \<and> Start demo_net started_service 8080 =
       (started_service, '''', Some (ErrorString ''webdav already running''))"
  using start_while_running_is_rejected [of started_service demo_net 8080]
  by (simp add: started_service_value)

text \<open>
  C9. When \<^verbatim>\<open>Start\<close> returns no error, \<^verbatim>\<open>net.Listen\<close> has bound a port
  \<open>bound\<close>, the service holds the listener of that port, and the returned string is
  the host, a colon and \<open>bound\<close> in decimal, where the host is the result of
  \<^verbatim>\<open>localIPv4\<close>, or \<^verbatim>\<open>127.0.0.1\<close> when that result is empty. The port in the
  string is the bound one, not the requested one. So when the operating system
  only ever binds positive ports (\<^verbatim>\<open>net.Listen\<close> returns no listener on port 0),
  the returned port is positive and its text is not \<^verbatim>\<open>0\<close>, whatever port was
  requested, in particular for a request of port 0.
\<close>

theorem start_returns_host_and_bound_port:
  assumes "snd (snd (Start env w port)) = None"
  shows "\<exists>bound.
           net_Listen env (''0.0.0.0:'' @ itoa port) = Inr bound
         \<and> listener (fst (Start env w port)) = Some \<lparr>ln_Port = bound, ln_closed = False\<rparr>
         \<and> fst (snd (Start env w port)) =
             (if localIPv4 (net_Interfaces env) = '''' then ''127.0.0.1''
              else localIPv4 (net_Interfaces env)) @ '':'' @ itoa bound
         \<and> (itoa bound = ''0'' \<longleftrightarrow> bound = 0)
         \<and> ((\<forall>addr p. net_Listen env addr = Inr p \<longrightarrow> 0 < p) \<longrightarrow>
              0 < bound
              \<and> itoa bound \<noteq> ''0''
              \<and> fst (snd (Start env w port)) \<noteq>
                  (if localIPv4 (net_Interfaces env) = '''' then ''127.0.0.1''
                   else localIPv4 (net_Interfaces env)) @ '':'' @ ''0'')"
proof (cases "running w")
  case True
  then show ?thesis using assms by (simp add: Start_def)
next
  case False
  show ?thesis
  proof (cases "net_Listen env (''0.0.0.0:'' @ itoa port)")
    case (Inl err)
    then show ?thesis using assms False by (simp add: Start_def)
  next
    case (Inr bound)
    have pos: "0 < bound \<and> itoa bound \<noteq> ''0''"
      if "\<forall>addr p. net_Listen env addr = Inr p \<longrightarrow> 0 < p"
    proof -
      from that Inr have "0 < bound" by blast
      then show ?thesis by (simp add: itoa_zero_iff)
    qed
    show ?thesis
      using False Inr pos by (auto simp: Start_def Let_def itoa_zero_iff)
  qed
qed

text \<open>
  A request for port 0 on a system that binds port 49152 for it and binds no
  other address, on the host of three interfaces and on a host with the loopback
  interface only: the returned port is 49152, not 0.
\<close>

theorem start_returns_host_and_bound_port_witness:
  "snd (snd (Start demo_net fresh_service 0)) = None
   \<and> \<not> (\<exists>addr p. net_Listen demo_net addr = Inr p \<and> p \<le> 0)
   \<and> fst (snd (Start demo_net fresh_service 0)) = ''192.168.1.5:49152''
   \<and> fst (snd (Start demo_net fresh_service 0)) \<noteq> ''192.168.1.5:0''
   \<and> snd (snd (Start loopback_only_net fresh_service 0)) = None
   \<and> \<not> (\<exists>addr p. net_Listen loopback_only_net addr = Inr p \<and> p \<le> 0)
   \<and> fst (snd (Start loopback_only_net fresh_service 0)) = ''127.0.0.1:49152''
   \<and> fst (snd (Start loopback_only_net fresh_service 0)) \<noteq> ''127.0.0.1:0''"
proof -
  have os: "\<forall>addr p. net_Listen demo_net addr = Inr p \<longrightarrow> 0 < p"
    by (simp add: demo_net_def)
  have os': "\<forall>addr p. net_Listen loopback_only_net addr = Inr p \<longrightarrow> 0 < p"
    by (simp add: loopback_only_net_def demo_net_def)
  have ok: "snd (snd (Start demo_net fresh_service 0)) = None"
    by (simp add: start_demo)
  have ok': "snd (snd (Start loopback_only_net fresh_service 0)) = None"
    by (simp add: start_loopback_only)
  from start_returns_host_and_bound_port [OF ok] os
  have "fst (snd (Start demo_net fresh_service 0)) \<noteq>
          (if localIPv4 (net_Interfaces demo_net) = '''' then ''127.0.0.1''
           else localIPv4 (net_Interfaces demo_net)) @ '':'' @ ''0''"
    by blast
  then have a: "fst (snd (Start demo_net fresh_service 0)) \<noteq> ''192.168.1.5:0''"
    by (simp add: demo_net_def demo_host)
  from start_returns_host_and_bound_port [OF ok'] os'
  have "fst (snd (Start loopback_only_net fresh_service 0)) \<noteq>
          (if localIPv4 (net_Interfaces loopback_only_net) = '''' then ''127.0.0.1''
           else localIPv4 (net_Interfaces loopback_only_net)) @ '':'' @ ''0''"
    by blast
  then have b: "fst (snd (Start loopback_only_net fresh_service 0)) \<noteq> ''127.0.0.1:0''"
    by (simp add: loopback_only_net_def demo_net_def loopback_host)
  from os have c: "\<not> (\<exists>addr p. net_Listen demo_net addr = Inr p \<and> p \<le> 0)"
    by fastforce
  from os' have c': "\<not> (\<exists>addr p. net_Listen loopback_only_net addr = Inr p \<and> p \<le> 0)"
    by fastforce
  from a b c c' ok ok' show ?thesis
    by (simp add: start_demo start_loopback_only)
qed

subsection \<open>Stop\<close>

text \<open>
  C7. On a service that is not running \<^verbatim>\<open>Stop\<close> returns no error and leaves
  the service as it was, and so does a second \<^verbatim>\<open>Stop\<close> right after it.
\<close>

theorem stop_when_stopped_is_noop:
  "\<not> running w \<Longrightarrow>
     Stop env w = (w, None) \<and> Stop env' (fst (Stop env w)) = (w, None)"
  by (simp add: Stop_def)

theorem stop_when_stopped_is_noop_witness:
  "\<not> running fresh_service
   \<and> Stop slow_shutdown_net fresh_service = (fresh_service, None)
   \<and> Stop slow_shutdown_net (fst (Stop slow_shutdown_net fresh_service))
       = (fresh_service, None)"
  using stop_when_stopped_is_noop [of fresh_service slow_shutdown_net slow_shutdown_net]
  by (simp add: fresh_service_value)

text \<open>
  C2, at the service started above, when \<^verbatim>\<open>srv.Shutdown\<close> does not finish
  within the grace period: \<^verbatim>\<open>Stop\<close> closes the listener, returns the error of
  \<^verbatim>\<open>Shutdown\<close> from line 115 and does not reach line 118, so the service still
  counts as running when \<^verbatim>\<open>Stop\<close> returns. The flag is cleared only later, when
  the goroutine of \<^verbatim>\<open>Start\<close> gets the mutex.
\<close>

theorem stop_shutdown_error_leaves_running:
  "Stop slow_shutdown_net started_service =
     (started_service\<lparr>listener := Some \<lparr>ln_Port = 49152, ln_closed = True\<rparr>\<rparr>,
      Some DeadlineExceeded)
   \<and> IsRunning (fst (Stop slow_shutdown_net started_service))
   \<and> \<not> IsRunning (serve_exit (fst (Stop slow_shutdown_net started_service)))"
  by (simp add: Stop_def started_service_value slow_shutdown_net_def demo_net_def
      IsRunning_def serve_exit_def)

subsection \<open>Flag and handles\<close>

lemma Start_keeps:
  "running w \<longrightarrow> handles_present w \<Longrightarrow>
   running (fst (Start env w port)) \<longrightarrow> handles_present (fst (Start env w port))"
  by (auto simp: Start_def Let_def handles_present_def split: sum.splits)

lemma Stop_keeps:
  "running w \<longrightarrow> handles_present w \<Longrightarrow>
   running (fst (Stop env w)) \<longrightarrow> handles_present (fst (Stop env w))"
  by (auto simp: Stop_def Let_def handles_present_def split: option.splits)

lemma apply_op_keeps:
  assumes "running w \<longrightarrow> handles_present w"
  shows "running (apply_op w x) \<longrightarrow> handles_present (apply_op w x)"
proof (cases x)
  case (OpStart env port)
  from assms show ?thesis unfolding OpStart apply_op.simps by (rule Start_keeps)
next
  case (OpStop env)
  from assms show ?thesis unfolding OpStop apply_op.simps by (rule Stop_keeps)
next
  case OpServeExit
  then show ?thesis by (simp add: serve_exit_def)
qed

lemma run_ops_keeps:
  "running w \<longrightarrow> handles_present w \<Longrightarrow>
   running (run_ops w ops) \<longrightarrow> handles_present (run_ops w ops)"
  unfolding run_ops_def
proof (induction ops arbitrary: w)
  case Nil
  then show ?case by simp
next
  case (Cons x ops)
  from Cons.prems have "running (apply_op w x) \<longrightarrow> handles_present (apply_op w x)"
    by (rule apply_op_keeps)
  then show ?case using Cons.IH by simp
qed

text \<open>
  C3, as stated, at the service after one successful \<^verbatim>\<open>Start\<close> and one
  successful \<^verbatim>\<open>Stop\<close>: it is not running, and both handles are still set,
  since \<^verbatim>\<open>Stop\<close> does not reset them.
\<close>

theorem handles_outlive_running_counterexample:
  "\<not> (running (run_ops (NewWebDAVService demo_fs '''') [OpStart demo_net 0, OpStop demo_net])
        \<longleftrightarrow> handles_present
              (run_ops (NewWebDAVService demo_fs '''') [OpStart demo_net 0, OpStop demo_net]))"
proof -
  have "run_ops (NewWebDAVService demo_fs '''') [OpStart demo_net 0, OpStop demo_net]
          = fst (Stop demo_net started_service)"
    by (simp add: run_ops_def started_service_def fresh_service_def)
  also have "\<dots> = started_service
                     \<lparr>listener := Some \<lparr>ln_Port = 49152, ln_closed = True\<rparr>, running := False\<rparr>"
    by (simp add: Stop_def started_service_value demo_net_def)
  finally show ?thesis
    by (simp add: started_service_value handles_present_def)
qed

text \<open>
  C3, amended. After any history of \<^verbatim>\<open>Start\<close> and \<^verbatim>\<open>Stop\<close> calls on a new
  service (and of exits of the serving goroutine), a running service has both
  handles set. The converse is not claimed: the handles stay set after a stop.
\<close>

theorem running_implies_handles_present:
  "running (run_ops (NewWebDAVService fs r) ops) \<longrightarrow>
     handles_present (run_ops (NewWebDAVService fs r) ops)"
  by (rule run_ops_keeps) (simp add: NewWebDAVService_def)

theorem running_implies_handles_present_witness:
  "running (run_ops (NewWebDAVService demo_fs '''') [OpStart demo_net 0])
   \<and> handles_present (run_ops (NewWebDAVService demo_fs '''') [OpStart demo_net 0])"
  using running_implies_handles_present [of demo_fs "''''" "[OpStart demo_net 0]"]
    start_demo
  by (simp add: run_ops_def fresh_service_def)

end
